theory Spec2Isabelle
  imports Complex_Main "HOL-Library.Log_Nat"
begin

section \<open>Strings\<close>

text \<open>
  JavaScript strings are modelled as \<^typ>\<open>string\<close>. Case conversion is the ASCII one:
  the messages, codes and patterns the program inspects are ASCII.
\<close>

definition toLowerChar :: "char \<Rightarrow> char" where
  "toLowerChar c =
     (case map_of (zip ''ABCDEFGHIJKLMNOPQRSTUVWXYZ'' ''abcdefghijklmnopqrstuvwxyz'') c of
        Some l \<Rightarrow> l | None \<Rightarrow> c)"

definition toUpperChar :: "char \<Rightarrow> char" where
  "toUpperChar c =
     (case map_of (zip ''abcdefghijklmnopqrstuvwxyz'' ''ABCDEFGHIJKLMNOPQRSTUVWXYZ'') c of
        Some u \<Rightarrow> u | None \<Rightarrow> c)"

definition toLowerCase :: "string \<Rightarrow> string" where
  "toLowerCase s = map toLowerChar s"

definition toUpperCase :: "string \<Rightarrow> string" where
  "toUpperCase s = map toUpperChar s"

fun startsWith :: "string \<Rightarrow> string \<Rightarrow> bool" where
  "startsWith s [] = True"
| "startsWith [] (c # cs) = False"
| "startsWith (x # xs) (c # cs) = (x = c \<and> startsWith xs cs)"

text \<open>\<open>s.includes(sub)\<close>: \<open>sub\<close> occurs in \<open>s\<close> as a contiguous substring.\<close>

fun str_includes :: "string \<Rightarrow> string \<Rightarrow> bool" where
  "str_includes [] sub = (sub = [])"
| "str_includes (x # xs) sub = (startsWith (x # xs) sub \<or> str_includes xs sub)"

text \<open>
  \<open>/p1|p2|...|pn/.test(s)\<close> for a regular expression that is an alternation of literal
  strings: some alternative occurs in \<open>s\<close>.
\<close>

definition test_any :: "string list \<Rightarrow> string \<Rightarrow> bool" where
  "test_any alternatives s = list_ex (str_includes s) alternatives"

text \<open>\<open>s.slice(0, n)\<close> for \<open>n \<ge> 0\<close>.\<close>

definition slice0 :: "string \<Rightarrow> nat \<Rightarrow> string" where
  "slice0 s n = take n s"


section \<open>Errors and their classification (packages/shared/src/retry.ts)\<close>

text \<open>
  A caught value, seen through the properties the program reads from it:
  \<open>err.code\<close>, \<open>err.status\<close>, \<open>err.response.status\<close>, \<open>err.message\<close>,
  \<open>err.response.data.message\<close>, \<open>err.body\<close> and, as \<open>e_text\<close>, the string
  \<open>String(err ?? "")\<close>: the empty string when the caught value is itself \<open>null\<close> or
  \<open>undefined\<close> (all its properties are then absent). A property that is absent
  (\<open>undefined\<close> or \<open>null\<close>) is \<open>None\<close>. A status that is present is a finite number; codes,
  messages and bodies that are present are strings.
\<close>

record err =
  e_code :: "string option"
  e_status :: "int option"
  e_response_status :: "int option"
  e_message :: "string option"
  e_response_message :: "string option"
  e_body :: "string option"
  e_text :: string

text \<open>\<open>a ?? b\<close> on optional values.\<close>

definition nullish :: "'a option \<Rightarrow> 'a option \<Rightarrow> 'a option" where
  "nullish a b = (case a of Some x \<Rightarrow> Some x | None \<Rightarrow> b)"

definition toCode :: "err \<Rightarrow> string" where
  "toCode e = toUpperCase (case e_code e of Some c \<Rightarrow> c | None \<Rightarrow> [])"

text \<open>The result \<open>NaN\<close> is \<open>None\<close>; every comparison with it is false.\<close>

definition toStatus :: "err \<Rightarrow> int option" where
  "toStatus e = nullish (e_status e) (e_response_status e)"

definition toMsg :: "err \<Rightarrow> string" where
  "toMsg e =
     toLowerCase
       (case nullish (e_message e) (nullish (e_response_message e) (e_body e)) of
          Some raw \<Rightarrow> raw
        | None \<Rightarrow> e_text e)"

text \<open>
  The regular expression \<open>/ec?onn?(refused|reset)|timed?out|dns|socket|temporar|unreachable|network/i\<close>
  written out as its alternatives.
\<close>

definition network_patterns :: "string list" where
  "network_patterns =
     [''eonrefused'', ''econrefused'', ''eonnrefused'', ''econnrefused'',
      ''eonreset'', ''econreset'', ''eonnreset'', ''econnreset'',
      ''timeout'', ''timedout'', ''dns'', ''socket'', ''temporar'', ''unreachable'',
      ''network'']"

text \<open>\<open>/rate|quota|throttle|forbidden.*rate/\<close>: the last alternative contains the first.\<close>

definition throttle_patterns :: "string list" where
  "throttle_patterns = [''rate'', ''quota'', ''throttle'']"

definition isRetryableError :: "err \<Rightarrow> bool" where
  "isRetryableError error =
     (let code = toCode error; status = toStatus error; msg = toMsg error in
      if str_includes code ''NETWORK'' \<or> str_includes code ''TIMEOUT'' then True
      else if test_any network_patterns msg then True
      else if status = Some 429 then True
      else if (case status of Some s \<Rightarrow> 500 \<le> s \<and> s < 600 | None \<Rightarrow> False) then True
      else if status = Some 403 \<and> test_any throttle_patterns msg then True
      else False)"

text \<open>
  \<open>/revert|execution reverted|invalid argument|invalid address|insufficient funds|bad response/i\<close>
\<close>

definition failfast_patterns :: "string list" where
  "failfast_patterns =
     [''revert'', ''execution reverted'', ''invalid argument'', ''invalid address'',
      ''insufficient funds'', ''bad response'']"

text \<open>The \<open>failFast\<close> flag computed in the \<open>catch\<close> of \<open>retryRpc\<close>.\<close>

definition failFast :: "err \<Rightarrow> bool" where
  "failFast e =
     (let status = toStatus e; code = toCode e; msg = toMsg e in
      status = Some 400 \<or> status = Some 401 \<or>
      str_includes code ''CALL_EXCEPTION'' \<or> str_includes code ''UNPREDICTABLE_GAS_LIMIT'' \<or>
      test_any failfast_patterns msg)"


section \<open>retryRpc\<close>

definition MAX_DELAY_MS :: int where
  "MAX_DELAY_MS = 15000"

subsection \<open>Numbers\<close>

text \<open>
  A JavaScript number is an IEEE 754 double. A finite double is modelled by the real number
  it denotes, and each arithmetic operation of the program by the exact operation followed
  by \<open>fl\<close>, rounding to the nearest double, ties to the even significand, with gradual
  underflow. \<open>binade x\<close> is the exponent \<open>e\<close> with \<open>2^e \<le> |x| < 2^(e+1)\<close>, not below
  the least normal exponent. Infinities and \<open>NaN\<close> are not modelled: \<open>fl\<close> is the
  program's rounding for results of magnitude below \<open>2^1024\<close>.
\<close>

definition round_half_even :: "real \<Rightarrow> int" where
  "round_half_even y =
     (let f = \<lfloor>y\<rfloor>; d = y - of_int f
      in if d < 1 / 2 then f else if 1 / 2 < d then f + 1 else if even f then f else f + 1)"

definition binade :: "real \<Rightarrow> int" where
  "binade x =
     max (- 1022)
       (let a = \<bar>x\<bar> in
        if a = 0 then - 1022
        else if 1 \<le> a then bitlen \<lfloor>a\<rfloor> - 1
        else (let k = bitlen \<lfloor>1 / a\<rfloor> in if a * 2 ^ nat (k - 1) = 1 then 1 - k else - k))"

definition fl :: "real \<Rightarrow> real" where
  "fl x =
     (if x = 0 then 0
      else (let u = 2 powi (binade x - 52) in of_int (round_half_even (x / u)) * u))"

text \<open>
  The delay computed after a failed attempt; \<open>r\<close> is the double \<open>Math.random()\<close>
  returned, \<open>0 \<le> r < 1\<close>. The literals \<open>1.10\<close> and \<open>0.15\<close> denote the doubles nearest to
  them. \<open>2 ** attempt\<close> is exact for \<open>attempt < 1024\<close>; with a finite \<open>baseDelayMs \<ge> 0\<close>
  a product beyond the doubles is \<open>Infinity\<close> in the program and some number above
  \<open>MAX_DELAY_MS\<close> here, and \<open>Math.min\<close> makes both \<open>MAX_DELAY_MS\<close>.
\<close>

definition jitterMult :: "real \<Rightarrow> real" where
  "jitterMult r = fl (fl 1.10 + fl (r * fl 0.15))"

definition backoff_delay :: "real \<Rightarrow> nat \<Rightarrow> real \<Rightarrow> int" where
  "backoff_delay baseDelayMs attempt r =
     (let base = min (fl (baseDelayMs * 2 ^ attempt)) (real_of_int MAX_DELAY_MS)
      in min \<lfloor>fl (base * jitterMult r)\<rfloor> MAX_DELAY_MS)"

text \<open>
  What one run of \<open>retryRpc\<close> does, in order: the invocations of \<open>fn\<close> (numbered from 0)
  and the sleeps between them.
\<close>

datatype retry_event = Invoked nat | Slept int

text \<open>
  The \<open>while (true)\<close> loop, entered with the current value of \<open>attempt\<close>. The operation
  \<open>fn\<close> is given by what its successive invocations produce: \<open>fn i\<close> is the outcome of
  invocation number \<open>i\<close>, \<open>Inl\<close> a thrown error and \<open>Inr\<close> a returned value;
  \<open>rnd i\<close> is the random number drawn after failure number \<open>i\<close>. The result is what
  \<open>retryRpc\<close> returns or throws, with the events of the run.
\<close>

function retry_loop ::
  "(nat \<Rightarrow> err + 'a) \<Rightarrow> int \<Rightarrow> real \<Rightarrow> (nat \<Rightarrow> real) \<Rightarrow> nat \<Rightarrow> (err + 'a) \<times> retry_event list"
where
  "retry_loop fn maxRetries baseDelayMs rnd attempt =
     (case fn attempt of
        Inr v \<Rightarrow> (Inr v, [Invoked attempt])
      | Inl e \<Rightarrow>
          if failFast e \<or> int attempt \<ge> maxRetries \<or> \<not> isRetryableError e
          then (Inl e, [Invoked attempt])
          else
            (let delay = backoff_delay baseDelayMs attempt (rnd attempt);
                 (res, evs) = retry_loop fn maxRetries baseDelayMs rnd (Suc attempt)
             in (res, Invoked attempt # Slept delay # evs)))"
  by pat_completeness auto
termination
  by (relation "measure (\<lambda>(fn, maxRetries, baseDelayMs, rnd, attempt). nat (maxRetries - int attempt))")
     auto

definition retryRpc ::
  "(nat \<Rightarrow> err + 'a) \<Rightarrow> int \<Rightarrow> real \<Rightarrow> (nat \<Rightarrow> real) \<Rightarrow> (err + 'a) \<times> retry_event list"
where
  "retryRpc fn maxRetries baseDelayMs rnd = retry_loop fn maxRetries baseDelayMs rnd 0"

text \<open>The defaults \<open>maxRetries = 3\<close>, \<open>baseDelayMs = 500\<close>.\<close>

definition retryRpc_default :: "(nat \<Rightarrow> err + 'a) \<Rightarrow> (nat \<Rightarrow> real) \<Rightarrow> (err + 'a) \<times> retry_event list" where
  "retryRpc_default fn rnd = retryRpc fn 3 500 rnd"

definition invocations :: "retry_event list \<Rightarrow> nat" where
  "invocations evs = length (filter (\<lambda>ev. case ev of Invoked _ \<Rightarrow> True | Slept _ \<Rightarrow> False) evs)"

definition sleeps :: "retry_event list \<Rightarrow> int list" where
  "sleeps evs = concat (map (\<lambda>ev. case ev of Invoked _ \<Rightarrow> [] | Slept d \<Rightarrow> [d]) evs)"


text \<open>The events of a run that retried attempts \<open>a, ..., N - 1\<close>.\<close>

definition retry_prefix :: "real \<Rightarrow> (nat \<Rightarrow> real) \<Rightarrow> nat \<Rightarrow> nat \<Rightarrow> retry_event list" where
  "retry_prefix b rnd a N =
     concat (map (\<lambda>i. [Invoked i, Slept (backoff_delay b i (rnd i))]) [a..<N])"


section \<open>The key-value store and the two locks\<close>

text \<open>
  The Redis store maps keys to string values. A key's time-to-live running out is a step
  of the environment: the key disappears.
\<close>

type_synonym redis = "string \<rightharpoonup> string"

text \<open>\<open>SET key value NX EX|PX ttl\<close>: sets the key only if it is absent; the reply is \<open>OK\<close> exactly then.\<close>

definition redis_set_nx :: "string \<Rightarrow> string \<Rightarrow> redis \<Rightarrow> bool \<times> redis" where
  "redis_set_nx key v store =
     (case store key of None \<Rightarrow> (True, store(key \<mapsto> v)) | Some _ \<Rightarrow> (False, store))"

definition redis_del :: "string \<Rightarrow> redis \<Rightarrow> redis" where
  "redis_del key store = store(key := None)"

definition ttl_expires :: "string \<Rightarrow> redis \<Rightarrow> redis" where
  "ttl_expires key store = store(key := None)"

subsection \<open>The nonce lock of apps/worker/src/worker.ts\<close>

definition lockKey :: "string \<Rightarrow> string" where
  "lockKey s = ''nonce-lock:'' @ s"

text \<open>\<open>acquireLock\<close>: \<open>redis.set(key, "1", "NX", "EX", ttlSec)\<close>.\<close>

definition acquireLock :: "string \<Rightarrow> redis \<Rightarrow> bool \<times> redis" where
  "acquireLock key store = redis_set_nx key ''1'' store"

text \<open>
  \<open>acquireLockWithBackoff\<close>: at most four attempts. \<open>others i\<close> is what other processes
  and expiring keys do to the store while the loop sleeps after failed attempt \<open>i\<close>; the
  lengths of the sleeps are not modelled. \<open>acquire_attempts others key i n\<close> runs the
  attempts \<open>i, ..., i + n - 1\<close>.
\<close>

primrec acquire_attempts ::
  "(nat \<Rightarrow> redis \<Rightarrow> redis) \<Rightarrow> string \<Rightarrow> nat \<Rightarrow> nat \<Rightarrow> redis \<Rightarrow> bool \<times> redis"
where
  "acquire_attempts others key i 0 store = (False, store)"
| "acquire_attempts others key i (Suc n) store =
     (case acquireLock key store of
        (True, store') \<Rightarrow> (True, store')
      | (False, store') \<Rightarrow> acquire_attempts others key (Suc i) n (others i store'))"

definition acquireLockWithBackoff ::
  "(nat \<Rightarrow> redis \<Rightarrow> redis) \<Rightarrow> string \<Rightarrow> redis \<Rightarrow> bool \<times> redis"
where
  "acquireLockWithBackoff others key store = acquire_attempts others key 0 4 store"

text \<open>\<open>releaseLock(key)\<close> of the worker: \<open>redis.del(key)\<close>.\<close>

definition worker_releaseLock :: "string \<Rightarrow> redis \<Rightarrow> redis" where
  "worker_releaseLock key store = redis_del key store"

subsection \<open>The reconciler's lock\<close>

definition LOCK_KEY :: string where
  "LOCK_KEY = ''reconciler:lock''"

text \<open>The script \<open>UNLOCK_LUA\<close>, run atomically by \<open>redis.eval\<close> with one key and one argument.\<close>

definition UNLOCK_LUA :: "string \<Rightarrow> string \<Rightarrow> redis \<Rightarrow> int \<times> redis" where
  "UNLOCK_LUA key arg store =
     (if store key = Some arg then (1, redis_del key store) else (0, store))"

text \<open>\<open>tryAcquireLock\<close>; \<open>token\<close> is the value \<open>randHex(8)\<close> returned.\<close>

definition tryAcquireLock :: "string \<Rightarrow> string \<Rightarrow> redis \<Rightarrow> string option \<times> redis" where
  "tryAcquireLock key token store =
     (case redis_set_nx key token store of
        (True, store') \<Rightarrow> (Some token, store')
      | (False, store') \<Rightarrow> (None, store'))"

definition reconciler_releaseLock :: "string \<Rightarrow> string \<Rightarrow> redis \<Rightarrow> redis" where
  "reconciler_releaseLock key token store = snd (UNLOCK_LUA key token store)"


section \<open>The requests table\<close>

datatype status = Queued | Broadcast | Sent | Failed

record request =
  row_id :: int
  row_address :: string
  row_ip :: string
  created_at :: nat
  status :: status
  tx_hash :: "string option"
  reason :: "string option"

type_synonym db = "request list"

text \<open>The statements the worker and the reconciler send, with their parameters.\<close>

datatype sql =
    UPDATE_failed string int
      \<comment> \<open>\<open>UPDATE requests SET status='failed', reason=$1 WHERE id=$2\<close>\<close>
  | UPDATE_broadcast string int
      \<comment> \<open>\<open>UPDATE requests SET status='broadcast', tx_hash=$1 WHERE id=$2\<close>\<close>
  | UPDATE_sent_where_hash int string
      \<comment> \<open>\<open>UPDATE requests SET status='sent' WHERE id=$1 AND tx_hash=$2\<close>\<close>
  | UPDATE_sent int
      \<comment> \<open>\<open>UPDATE requests SET status='sent' WHERE id=$1\<close>\<close>
  | SELECT_broadcast nat
      \<comment> \<open>\<open>SELECT id, tx_hash FROM requests WHERE status='broadcast' ORDER BY created_at ASC LIMIT $1\<close>\<close>

fun exec_update :: "sql \<Rightarrow> db \<Rightarrow> db" where
  "exec_update (UPDATE_failed rsn i) t =
     map (\<lambda>r. if row_id r = i then r\<lparr>status := Failed, reason := Some rsn\<rparr> else r) t"
| "exec_update (UPDATE_broadcast h i) t =
     map (\<lambda>r. if row_id r = i then r\<lparr>status := Broadcast, tx_hash := Some h\<rparr> else r) t"
| "exec_update (UPDATE_sent_where_hash i h) t =
     map (\<lambda>r. if row_id r = i \<and> tx_hash r = Some h then r\<lparr>status := Sent\<rparr> else r) t"
| "exec_update (UPDATE_sent i) t =
     map (\<lambda>r. if row_id r = i then r\<lparr>status := Sent\<rparr> else r) t"
| "exec_update (SELECT_broadcast n) t = t"

text \<open>The rows a statement returns: \<open>id\<close> and \<open>tx_hash\<close> of the selected rows.\<close>

fun exec_select :: "sql \<Rightarrow> db \<Rightarrow> (int \<times> string option) list" where
  "exec_select (SELECT_broadcast n) t =
     map (\<lambda>r. (row_id r, tx_hash r))
       (take n (sort_key created_at (filter (\<lambda>r. status r = Broadcast) t)))"
| "exec_select q t = []"

text \<open>
  \<open>query\<close> of packages/shared/src/db.ts. The pool can reject a statement: \<open>db_error q\<close> is
  the error it rejects \<open>q\<close> with, if any; a rejected statement changes nothing.
\<close>

definition query :: "(sql \<Rightarrow> err option) \<Rightarrow> sql \<Rightarrow> db \<Rightarrow> err + (int \<times> string option) list \<times> db" where
  "query db_error q t =
     (case db_error q of
        Some e \<Rightarrow> Inl e
      | None \<Rightarrow> Inr (exec_select q t, exec_update q t))"


section \<open>The reconciler\<close>

text \<open>
  What a sweep depends on: \<open>getTransactionReceipt loop hash i\<close> is the outcome of invocation
  \<open>i\<close> of \<open>provider.getTransactionReceipt(hash)\<close> during iteration \<open>loop\<close> of the sweep:
  an error, no receipt (\<open>None\<close>), or a receipt with its \<open>status\<close> (itself nullable).
\<close>

record reconciler_env =
  getTransactionReceipt :: "nat \<Rightarrow> string \<Rightarrow> nat \<Rightarrow> err + int option option"
  rc_db_error :: "sql \<Rightarrow> err option"
  rc_random :: "nat \<Rightarrow> real"
  BATCH :: nat
  MAX_LOOPS :: nat

text \<open>
  The body of \<open>for (const r of rows)\<close>. A row's \<open>tx_hash\<close> is missing when it is null or
  the empty string (\<open>!r.tx_hash\<close>). The result is the error the body throws, if any, and
  the table; errors inside the \<open>try\<close> are logged and dropped.
\<close>

definition reconcile_row :: "reconciler_env \<Rightarrow> nat \<Rightarrow> int \<times> string option \<Rightarrow> db \<Rightarrow> err option \<times> db" where
  "reconcile_row env loop r t =
     (if snd r = None \<or> snd r = Some [] then
        (case query (rc_db_error env) (UPDATE_failed ''missing tx_hash in broadcast state'' (fst r)) t of
           Inl e \<Rightarrow> (Some e, t)
         | Inr (_, t') \<Rightarrow> (None, t'))
      else
        (case fst (retryRpc (getTransactionReceipt env loop (the (snd r))) 3 500 (rc_random env)) of
           Inl e \<Rightarrow> (None, t)
         | Inr None \<Rightarrow> (None, t)
         | Inr (Some rcpt_status) \<Rightarrow>
             if rcpt_status = Some 1 then
               (case query (rc_db_error env) (UPDATE_sent (fst r)) t of
                  Inl e \<Rightarrow> (None, t)
                | Inr (_, t') \<Rightarrow> (None, t'))
             else if rcpt_status = Some 0 then
               (case query (rc_db_error env) (UPDATE_failed ''transaction reverted'' (fst r)) t of
                  Inl e \<Rightarrow> (None, t)
                | Inr (_, t') \<Rightarrow> (None, t'))
             else (None, t)))"

fun for_rows :: "reconciler_env \<Rightarrow> nat \<Rightarrow> (int \<times> string option) list \<Rightarrow> db \<Rightarrow> err option \<times> db" where
  "for_rows env loop [] t = (None, t)"
| "for_rows env loop (r # rs) t =
     (case reconcile_row env loop r t of
        (Some e, t') \<Rightarrow> (Some e, t')
      | (None, t') \<Rightarrow> for_rows env loop rs t')"

text \<open>
  The loop \<open>while (loops++ < MAX_LOOPS)\<close>, entered with the value of \<open>loops\<close> before the
  test.
\<close>

function sweep_loop :: "reconciler_env \<Rightarrow> nat \<Rightarrow> db \<Rightarrow> err option \<times> db" where
  "sweep_loop env loops t =
     (if loops < MAX_LOOPS env then
        (case query (rc_db_error env) (SELECT_broadcast (BATCH env)) t of
           Inl e \<Rightarrow> (Some e, t)
         | Inr (rows, _) \<Rightarrow>
             if length rows = 0 then (None, t)
             else
               (case for_rows env loops rows t of
                  (Some e, t') \<Rightarrow> (Some e, t')
                | (None, t') \<Rightarrow>
                    if length rows < BATCH env then (None, t')
                    else sweep_loop env (Suc loops) t'))
      else (None, t))"
  by pat_completeness auto
termination
  by (relation "measure (\<lambda>(env, loops, t). MAX_LOOPS env - loops)") auto

definition reconcileBroadcastsOnce :: "reconciler_env \<Rightarrow> db \<Rightarrow> err option \<times> db" where
  "reconcileBroadcastsOnce env t = sweep_loop env 0 t"


section \<open>The worker (apps/worker/src/worker.ts)\<close>

subsection \<open>Helpers\<close>

text \<open>Division of \<open>bigint\<close> values truncates towards zero.\<close>

definition bigint_div :: "int \<Rightarrow> int \<Rightarrow> int" where
  "bigint_div a b = sgn a * sgn b * (\<bar>a\<bar> div \<bar>b\<bar>)"

text \<open>\<open>bumpBig(x, mult)\<close>, given \<open>m = Math.round(mult * 100)\<close>.\<close>

definition bumpBig :: "int \<Rightarrow> int \<Rightarrow> int" where
  "bumpBig x m = bigint_div (x * m) 100"

record feedata =
  gasPrice :: "int option"
  maxFeePerGas :: "int option"
  maxPriorityFeePerGas :: "int option"

record fee_suggestion =
  s_maxPriorityFeePerGas :: int
  s_maxFeePerGas :: int
  s_gasPrice :: int

text \<open>The part of \<open>getFeeSuggestion\<close> after the fee data has arrived.\<close>

definition fee_suggestion_of :: "int \<Rightarrow> feedata \<Rightarrow> fee_suggestion" where
  "fee_suggestion_of m fee =
     (let gp = (case gasPrice fee of Some v \<Rightarrow> v | None \<Rightarrow> 1 * 10 ^ 9);
          maxPrio = (case maxPriorityFeePerGas fee of Some v \<Rightarrow> v | None \<Rightarrow> bigint_div gp 2);
          maxFee = (case maxFeePerGas fee of Some v \<Rightarrow> v | None \<Rightarrow> gp + maxPrio)
      in \<lparr>s_maxPriorityFeePerGas = bumpBig maxPrio m,
          s_maxFeePerGas = bumpBig maxFee m,
          s_gasPrice = bumpBig gp m\<rparr>)"

text \<open>\<open>new Error(msg)\<close>.\<close>

definition js_Error :: "string \<Rightarrow> err" where
  "js_Error msg =
     \<lparr>e_code = None, e_status = None, e_response_status = None, e_message = Some msg,
      e_response_message = None, e_body = None, e_text = ''Error: '' @ msg\<rparr>"

text \<open>
  \<open>/revert|execution reverted|invalid argument|invalid address|insufficient funds/i\<close>
\<close>

definition permanent_patterns :: "string list" where
  "permanent_patterns =
     [''revert'', ''execution reverted'', ''invalid argument'', ''invalid address'',
      ''insufficient funds'']"

text \<open>
  \<open>String(err?.message ?? err ?? "")\<close>: the message when there is one, otherwise
  \<open>String(err ?? "")\<close>, which is \<open>e_text\<close>, empty for a thrown \<open>null\<close> or \<open>undefined\<close>.
\<close>

definition message_or_text :: "err \<Rightarrow> string" where
  "message_or_text e = (case e_message e of Some m \<Rightarrow> m | None \<Rightarrow> e_text e)"

definition isPermanentError :: "err \<Rightarrow> bool" where
  "isPermanentError e =
     (let code = toUpperCase (case e_code e of Some c \<Rightarrow> c | None \<Rightarrow> []);
          st = e_status e;
          msg = toLowerCase (message_or_text e)
      in st = Some 400 \<or> st = Some 401 \<or>
         str_includes code ''CALL_EXCEPTION'' \<or> str_includes code ''UNPREDICTABLE_GAS_LIMIT'' \<or>
         test_any permanent_patterns msg)"

definition formatReason :: "err \<Rightarrow> string" where
  "formatReason e = slice0 (message_or_text e) 400"

subsection \<open>What a job run depends on, and what it does\<close>

record DripJob =
  requestId :: int
  address :: string
  ip :: string

record tx_request =
  tx_to :: string
  tx_value :: int
  tx_gasLimit :: int
  tx_maxFeePerGas :: int

text \<open>
  Configuration and the outside world, as the run of one job meets them. Each network
  operation is given by the outcomes of its successive invocations, as for \<open>retryRpc\<close>.
  \<open>amountWei\<close> is \<open>ethers.parseEther(DRIP_AMOUNT)\<close>, which can throw; \<open>FEE_BUMP_PCT\<close> is
  \<open>Math.round(MAX_FEE_BUMP_MULT * 100)\<close>.
\<close>

record env =
  isAddress :: "string \<Rightarrow> bool"
  sender :: string
  amountWei :: "err + int"
  TX_WAIT_TIMEOUT_MS :: int
  FALLBACK_GAS_LIMIT :: int
  FEE_BUMP_PCT :: int
  estimateGas :: "string \<Rightarrow> int \<Rightarrow> nat \<Rightarrow> err + int"
  getFeeData :: "nat \<Rightarrow> err + feedata"
  getBalance :: "string \<Rightarrow> nat \<Rightarrow> err + int"
  sendTransaction :: "tx_request \<Rightarrow> nat \<Rightarrow> err + string"
  waitForTransaction :: "string \<Rightarrow> int \<Rightarrow> int \<Rightarrow> nat \<Rightarrow> err + unit"
  db_error :: "sql \<Rightarrow> err option"
  math_random :: "nat \<Rightarrow> real"
  others :: "nat \<Rightarrow> redis \<Rightarrow> redis"

datatype rpc =
    EstimateGas
  | GetFeeData
  | GetBalance
  | SendTransaction
  | WaitForTransaction string int int

text \<open>
  The trace of a run: each invocation of a network operation and each sleep of its retry
  loop, each statement sent to the database with whether it completed, and the lock
  operations.
\<close>

datatype event =
    Rpc rpc retry_event
  | QueryDone sql
  | QueryFailed sql
  | LockAttempts string bool
  | LockReleased string

record world =
  w_db :: db
  w_redis :: redis
  w_trace :: "event list"

text \<open>What the handler's promise settles to.\<close>

datatype outcome = Returned | Threw err

text \<open>\<open>await query(...)\<close>: the error thrown, if any, and the world after.\<close>

definition do_query :: "env \<Rightarrow> sql \<Rightarrow> world \<Rightarrow> err option \<times> world" where
  "do_query env q w =
     (case query (db_error env) q (w_db w) of
        Inl e \<Rightarrow> (Some e, w\<lparr>w_trace := w_trace w @ [QueryFailed q]\<rparr>)
      | Inr (_, t) \<Rightarrow> (None, w\<lparr>w_db := t, w_trace := w_trace w @ [QueryDone q]\<rparr>))"

text \<open>\<open>await retryRpc(() => op)\<close> with the default arguments.\<close>

definition do_rpc :: "env \<Rightarrow> rpc \<Rightarrow> (nat \<Rightarrow> err + 'a) \<Rightarrow> world \<Rightarrow> (err + 'a) \<times> world" where
  "do_rpc env name fn w =
     (case retryRpc fn 3 500 (math_random env) of
        (res, evs) \<Rightarrow> (res, w\<lparr>w_trace := w_trace w @ map (Rpc name) evs\<rparr>))"

definition getFeeSuggestion :: "env \<Rightarrow> world \<Rightarrow> (err + fee_suggestion) \<times> world" where
  "getFeeSuggestion env w =
     (case do_rpc env GetFeeData (getFeeData env) w of
        (Inl e, w') \<Rightarrow> (Inl e, w')
      | (Inr fee, w') \<Rightarrow> (Inr (fee_suggestion_of (FEE_BUMP_PCT env) fee), w'))"

definition ensureBalanceCovers :: "env \<Rightarrow> int \<Rightarrow> int \<Rightarrow> world \<Rightarrow> err option \<times> world" where
  "ensureBalanceCovers env amount feeWei w =
     (case do_rpc env GetBalance (getBalance env (sender env)) w of
        (Inl e, w') \<Rightarrow> (Some e, w')
      | (Inr bal, w') \<Rightarrow>
          if bal < amount + feeWei
          then (Some (js_Error ''insufficient funds in faucet wallet for amount+fees''), w')
          else (None, w'))"

subsection \<open>The job handler\<close>

text \<open>
  The inner \<open>catch (e)\<close> around the confirmation wait: a message containing \<open>timeout\<close>
  makes the handler return, any other error is thrown on to the outer \<open>catch\<close>.
\<close>

definition is_timeout :: "err \<Rightarrow> bool" where
  "is_timeout e =
     str_includes (toLowerCase (case e_message e of Some m \<Rightarrow> m | None \<Rightarrow> [])) ''timeout''"

definition wait_catch :: "err \<Rightarrow> world \<Rightarrow> err option \<times> world" where
  "wait_catch e w = (if is_timeout e then (None, w) else (Some e, w))"

text \<open>The inner \<open>try\<close>: wait for one confirmation, then mark the row sent.\<close>

definition wait_phase :: "env \<Rightarrow> DripJob \<Rightarrow> string \<Rightarrow> world \<Rightarrow> err option \<times> world" where
  "wait_phase env job h w =
     (case do_rpc env (WaitForTransaction h 1 (TX_WAIT_TIMEOUT_MS env))
             (waitForTransaction env h 1 (TX_WAIT_TIMEOUT_MS env)) w of
        (Inl e, w1) \<Rightarrow> wait_catch e w1
      | (Inr _, w1) \<Rightarrow>
          (case do_query env (UPDATE_sent_where_hash (requestId job) h) w1 of
             (Some e, w2) \<Rightarrow> wait_catch e w2
           | (None, w2) \<Rightarrow> (None, w2)))"

text \<open>
  The body of the outer \<open>try\<close>: \<open>None\<close> when it returns, \<open>Some e\<close> when \<open>e\<close> reaches the
  outer \<open>catch\<close>.
\<close>

definition try_body :: "env \<Rightarrow> DripJob \<Rightarrow> world \<Rightarrow> err option \<times> world" where
  "try_body env job w =
     (case amountWei env of
        Inl e \<Rightarrow> (Some e, w)
      | Inr amount \<Rightarrow>
          (case do_rpc env EstimateGas (estimateGas env (address job) amount) w of
             (g, w1) \<Rightarrow>
               (let gasLimit = (case g of Inr v \<Rightarrow> v | Inl _ \<Rightarrow> FALLBACK_GAS_LIMIT env) in
                case getFeeSuggestion env w1 of
                  (Inl e, w2) \<Rightarrow> (Some e, w2)
                | (Inr fees, w2) \<Rightarrow>
                    (let effectiveFeePerGas = s_maxFeePerGas fees;
                         feeCost = effectiveFeePerGas * gasLimit in
                     case ensureBalanceCovers env amount feeCost w2 of
                       (Some e, w3) \<Rightarrow> (Some e, w3)
                     | (None, w3) \<Rightarrow>
                         (case do_rpc env SendTransaction
                                 (sendTransaction env
                                    \<lparr>tx_to = address job, tx_value = amount,
                                     tx_gasLimit = gasLimit,
                                     tx_maxFeePerGas = s_maxFeePerGas fees\<rparr>) w3 of
                            (Inl e, w4) \<Rightarrow> (Some e, w4)
                          | (Inr h, w4) \<Rightarrow>
                              (case do_query env (UPDATE_broadcast h (requestId job)) w4 of
                                 (Some e, w5) \<Rightarrow> (Some e, w5)
                               | (None, w5) \<Rightarrow> wait_phase env job h w5))))))"

text \<open>The outer \<open>catch (err)\<close>.\<close>

definition catch_all :: "env \<Rightarrow> DripJob \<Rightarrow> err \<Rightarrow> world \<Rightarrow> outcome \<times> world" where
  "catch_all env job e w =
     (let rsn = formatReason e in
      case do_query env (UPDATE_failed rsn (requestId job)) w of
        (Some e', w1) \<Rightarrow> (Threw e', w1)
      | (None, w1) \<Rightarrow>
          if isPermanentError e then (Returned, w1)
          else if \<not> isRetryableError e then (Returned, w1)
          else (Threw e, w1))"

text \<open>\<open>finally { await releaseLock(lk) }\<close>.\<close>

definition finally_release :: "string \<Rightarrow> world \<Rightarrow> world" where
  "finally_release lk w =
     w\<lparr>w_redis := worker_releaseLock lk (w_redis w), w_trace := w_trace w @ [LockReleased lk]\<rparr>"

definition lock_phase :: "env \<Rightarrow> string \<Rightarrow> world \<Rightarrow> bool \<times> world" where
  "lock_phase env lk w =
     (case acquireLockWithBackoff (others env) lk (w_redis w) of
        (got, store) \<Rightarrow> (got, w\<lparr>w_redis := store, w_trace := w_trace w @ [LockAttempts lk got]\<rparr>))"

text \<open>The processor function given to \<open>new Worker\<close>.\<close>

definition handler :: "env \<Rightarrow> DripJob \<Rightarrow> world \<Rightarrow> outcome \<times> world" where
  "handler env job w =
     (if \<not> isAddress env (address job) then
        (case do_query env (UPDATE_failed ''invalid recipient address'' (requestId job)) w of
           (Some e, w') \<Rightarrow> (Threw e, w')
         | (None, w') \<Rightarrow> (Returned, w'))
      else
        (let lk = lockKey (sender env) in
         case lock_phase env lk w of
           (False, w1) \<Rightarrow> (Threw (js_Error ''nonce lock not acquired (backoff exhausted)''), w1)
         | (True, w1) \<Rightarrow>
             (case try_body env job w1 of
                (None, w2) \<Rightarrow> (Returned, finally_release lk w2)
              | (Some e, w2) \<Rightarrow>
                  (case catch_all env job e w2 of
                     (res, w3) \<Rightarrow> (res, finally_release lk w3)))))"


section \<open>Runs, traces and the state of the table\<close>

text \<open>The events a run adds to the trace, from world \<open>w\<close> to world \<open>w'\<close>.\<close>

definition run_events :: "world \<Rightarrow> world \<Rightarrow> event list" where
  "run_events w w' = drop (length (w_trace w)) (w_trace w')"

text \<open>
  Events that are neither a confirmation wait, nor a completed statement, nor an attempt
  to write \<open>failed\<close>.
\<close>

definition quiet :: "event \<Rightarrow> bool" where
  "quiet ev =
     (case ev of
        Rpc (WaitForTransaction h c t) re \<Rightarrow> False
      | Rpc _ re \<Rightarrow> True
      | QueryDone q \<Rightarrow> False
      | QueryFailed (UPDATE_failed rsn i) \<Rightarrow> False
      | QueryFailed _ \<Rightarrow> True
      | _ \<Rightarrow> True)"

text \<open>The hash, confirmations and timeout of a confirmation wait in the trace.\<close>

fun wait_of :: "event \<Rightarrow> (string \<times> int \<times> int) option" where
  "wait_of (Rpc (WaitForTransaction h c t) re) = Some (h, c, t)"
| "wait_of ev = None"







section \<open>Concrete inputs\<close>

text \<open>An HTTP 503 from the RPC endpoint: retryable, not fail-fast.\<close>

definition err_503 :: err where
  "err_503 = \<lparr>e_code = None, e_status = Some 503, e_response_status = None,
     e_message = Some ''Service Unavailable'', e_response_message = None, e_body = None,
     e_text = ''Error: Service Unavailable''\<rparr>"

text \<open>An HTTP 500 whose message reports insufficient funds: retryable by status, fail-fast by message.\<close>

definition err_500_insufficient :: err where
  "err_500_insufficient = \<lparr>e_code = None, e_status = Some 500, e_response_status = None,
     e_message = Some ''insufficient funds for gas * price + value'',
     e_response_message = None, e_body = None,
     e_text = ''Error: insufficient funds for gas * price + value''\<rparr>"

definition always_throws :: "err \<Rightarrow> nat \<Rightarrow> err + int" where
  "always_throws e i = Inl e"

definition throws_then_returns :: "nat \<Rightarrow> err \<Rightarrow> int \<Rightarrow> nat \<Rightarrow> err + int" where
  "throws_then_returns n e v i = (if i < n then Inl e else Inr v)"

text \<open>\<open>Math.random()\<close> returning 0 every time.\<close>

definition no_jitter :: "nat \<Rightarrow> real" where
  "no_jitter i = 0"


text \<open>The error \<open>provider.waitForTransaction\<close> rejects with when its timeout elapses.\<close>

definition err_wait_timeout :: err where
  "err_wait_timeout = \<lparr>e_code = Some ''TIMEOUT'', e_status = None, e_response_status = None,
     e_message = Some ''wait for transaction timeout'', e_response_message = None,
     e_body = None, e_text = ''Error: wait for transaction timeout''\<rparr>"

definition a_row :: "int \<Rightarrow> nat \<Rightarrow> status \<Rightarrow> string option \<Rightarrow> request" where
  "a_row i c st h =
     \<lparr>row_id = i, row_address = ''0xabc'', row_ip = ''203.0.113.7'', created_at = c,
      status = st, tx_hash = h, reason = None\<rparr>"

text \<open>
  A chain on which \<open>0xaaa\<close> succeeded, \<open>0xbbb\<close> reverted, \<open>0xddd\<close> has a receipt with an
  unexpected status and every other transaction is pending.
\<close>

definition receipts0 :: "nat \<Rightarrow> string \<Rightarrow> nat \<Rightarrow> err + int option option" where
  "receipts0 loop h i =
     (if h = ''0xaaa'' then Inr (Some (Some 1))
      else if h = ''0xbbb'' then Inr (Some (Some 0))
      else if h = ''0xddd'' then Inr (Some (Some 2))
      else Inr None)"

definition db_ok :: "sql \<Rightarrow> err option" where
  "db_ok q = None"

definition renv0 :: reconciler_env where
  "renv0 = \<lparr>getTransactionReceipt = receipts0, rc_db_error = db_ok, rc_random = no_jitter,
     BATCH = 200, MAX_LOOPS = 20\<rparr>"

text \<open>
  A worker whose network calls succeed, with transaction hash \<open>0x111\<close>, except for the
  confirmation wait, which is given.
\<close>

definition env_with_wait :: "(string \<Rightarrow> int \<Rightarrow> int \<Rightarrow> nat \<Rightarrow> err + unit) \<Rightarrow> env" where
  "env_with_wait wait =
     \<lparr>isAddress = (\<lambda>a. startsWith a ''0x''), sender = ''0xfaucet'',
      amountWei = Inr 20000000000000000, TX_WAIT_TIMEOUT_MS = 120000,
      FALLBACK_GAS_LIMIT = 21000, FEE_BUMP_PCT = 125,
      estimateGas = (\<lambda>to v i. Inr 21000),
      getFeeData = (\<lambda>i. Inr \<lparr>gasPrice = Some 1000000000, maxFeePerGas = Some 2000000000,
                              maxPriorityFeePerGas = Some 1000000000\<rparr>),
      getBalance = (\<lambda>a i. Inr 1000000000000000000),
      sendTransaction = (\<lambda>tx i. Inr ''0x111''),
      waitForTransaction = wait, db_error = db_ok, math_random = no_jitter,
      others = (\<lambda>i store. store)\<rparr>"

definition wait_confirms :: "string \<Rightarrow> int \<Rightarrow> int \<Rightarrow> nat \<Rightarrow> err + unit" where
  "wait_confirms h c t i = Inr ()"

definition wait_times_out :: "string \<Rightarrow> int \<Rightarrow> int \<Rightarrow> nat \<Rightarrow> err + unit" where
  "wait_times_out h c t i = Inl err_wait_timeout"

definition wait_times_out_then_503 :: "string \<Rightarrow> int \<Rightarrow> int \<Rightarrow> nat \<Rightarrow> err + unit" where
  "wait_times_out_then_503 h c t i = (if i = 0 then Inl err_wait_timeout else Inl err_503)"

text \<open>The same worker with a faucet balance of 5 wei.\<close>

definition env_low_balance :: env where
  "env_low_balance = (env_with_wait wait_confirms)\<lparr>getBalance := (\<lambda>a i. Inr 5)\<rparr>"

text \<open>
  The error of a pool that has lost its connection, and the same worker with every
  statement rejected.
\<close>

definition err_db_down :: err where
  "err_db_down = js_Error ''Connection terminated unexpectedly''"

definition db_down :: "sql \<Rightarrow> err option" where
  "db_down q = Some err_db_down"

definition env_db_down :: env where
  "env_db_down = env_low_balance\<lparr>db_error := db_down\<rparr>"


definition job1 :: DripJob where
  "job1 = \<lparr>requestId = 1, address = ''0xabc'', ip = ''203.0.113.7''\<rparr>"

definition world0 :: world where
  "world0 = \<lparr>w_db = [a_row 1 10 Queued None], w_redis = Map.empty, w_trace = []\<rparr>"




section \<open>Properties of retryRpc\<close>

declare retry_loop.simps [simp del]

lemmas classify_defs = failFast_def isRetryableError_def toStatus_def toCode_def toMsg_def
  nullish_def toLowerCase_def toUpperCase_def toLowerChar_def toUpperChar_def test_any_def
  failfast_patterns_def network_patterns_def throttle_patterns_def

lemma retry_loop_run:
  assumes "a \<le> N"
    and "\<And>i. a \<le> i \<Longrightarrow> i < N \<Longrightarrow>
           (\<exists>e. fn i = Inl e \<and> \<not> failFast e \<and> isRetryableError e) \<and> int i < m"
    and "case fn N of Inr v \<Rightarrow> True
         | Inl e \<Rightarrow> failFast e \<or> int N \<ge> m \<or> \<not> isRetryableError e"
  shows "retry_loop fn m b rnd a = (fn N, retry_prefix b rnd a N @ [Invoked N])"
  using assms
proof (induction "N - a" arbitrary: a)
  case 0
  then have "a = N" by simp
  with 0(4) show ?case
    by (subst retry_loop.simps) (auto simp: retry_prefix_def split: sum.splits)
next
  case (Suc k)
  then have lt: "a < N" by simp
  from Suc(4)[of a] lt obtain e
    where e: "fn a = Inl e" "\<not> failFast e" "isRetryableError e" "int a < m"
    by auto
  have ih: "retry_loop fn m b rnd (Suc a) = (fn N, retry_prefix b rnd (Suc a) N @ [Invoked N])"
    using Suc(1)[of "Suc a"] Suc(2) lt Suc(4) Suc(5) by auto
  have up: "[a..<N] = a # [Suc a..<N]" using lt by (simp add: upt_conv_Cons)
  show ?case using e
    by (subst retry_loop.simps) (simp add: ih retry_prefix_def up)
qed


lemma invocations_prefix: "invocations (retry_prefix b rnd a N @ [Invoked N]) = Suc (N - a)"
  by (induction N) (auto simp: invocations_def retry_prefix_def)

lemma sleeps_prefix:
  "sleeps (retry_prefix b rnd a N @ [Invoked N]) = map (\<lambda>i. backoff_delay b i (rnd i)) [a..<N]"
  by (induction N) (auto simp: sleeps_def retry_prefix_def)

lemma err_503_class: "\<not> failFast err_503 \<and> isRetryableError err_503"
  by (simp add: classify_defs err_503_def)

lemma err_500_insufficient_class:
  "failFast err_500_insufficient \<and> isRetryableError err_500_insufficient"
  by (simp add: classify_defs err_500_insufficient_def)

text \<open>
  C10. Fail-fast classification takes precedence over retryability: an error that is both
  fail-fast and retryable, thrown by the first invocation, is rethrown at once; the run
  is that one invocation, with no sleep and no retry.
\<close>

theorem retryRpc_failFast_first:
  assumes "failFast e" and "isRetryableError e" and "fn 0 = Inl e"
  shows "retryRpc fn maxRetries baseDelayMs rnd = (Inl e, [Invoked 0])"
  using assms by (simp add: retryRpc_def retry_loop.simps[of fn maxRetries baseDelayMs rnd 0])

theorem retryRpc_failFast_first_witness:
  "failFast err_500_insufficient \<and> isRetryableError err_500_insufficient
   \<and> always_throws err_500_insufficient 0 = Inl err_500_insufficient
   \<and> retryRpc (always_throws err_500_insufficient) 3 500 no_jitter
       = (Inl err_500_insufficient, [Invoked 0])"
proof -
  have ff: "failFast err_500_insufficient" and rt: "isRetryableError err_500_insufficient"
    using err_500_insufficient_class by simp_all
  have fn0: "always_throws err_500_insufficient 0 = Inl err_500_insufficient"
    by (simp add: always_throws_def)
  from retryRpc_failFast_first
         [of err_500_insufficient "always_throws err_500_insufficient" 3 500 no_jitter,
          OF ff rt fn0] ff rt fn0
  show ?thesis by simp
qed

text \<open>
  C6, as amended. \<open>maxRetries\<close> bounds the retries, not the invocations. An operation whose
  first \<open>N\<close> invocations throw retryable errors that are not fail-fast and whose next
  invocation returns, with \<open>N \<le> maxRetries\<close>, makes \<open>retryRpc\<close> return that value after
  \<open>N\<close> retries. When the first \<open>maxRetries\<close> invocations throw such errors and invocation
  number \<open>maxRetries\<close> throws too, the error of that last invocation is rethrown, after
  \<open>maxRetries\<close> retries, that is \<open>maxRetries + 1\<close> invocations.
\<close>

theorem retryRpc_budget:
  "((\<forall>i<N. \<exists>e. fn i = Inl e \<and> \<not> failFast e \<and> isRetryableError e)
      \<and> fn N = Inr v \<and> int N \<le> maxRetries
      \<longrightarrow> fst (retryRpc fn maxRetries baseDelayMs rnd) = Inr v
        \<and> invocations (snd (retryRpc fn maxRetries baseDelayMs rnd)) = N + 1
        \<and> length (sleeps (snd (retryRpc fn maxRetries baseDelayMs rnd))) = N)
   \<and> ((\<forall>i<N. \<exists>e. fn i = Inl e \<and> \<not> failFast e \<and> isRetryableError e)
      \<and> fn N = Inl e' \<and> int N = maxRetries
      \<longrightarrow> fst (retryRpc fn maxRetries baseDelayMs rnd) = Inl e'
        \<and> invocations (snd (retryRpc fn maxRetries baseDelayMs rnd)) = N + 1
        \<and> length (sleeps (snd (retryRpc fn maxRetries baseDelayMs rnd))) = N)"
proof -
  have run: "retryRpc fn maxRetries baseDelayMs rnd
               = (fn N, retry_prefix baseDelayMs rnd 0 N @ [Invoked N])"
    if fails: "\<forall>i<N. \<exists>e. fn i = Inl e \<and> \<not> failFast e \<and> isRetryableError e"
      and bound: "int N \<le> maxRetries"
      and last: "(\<exists>v. fn N = Inr v) \<or> int N = maxRetries"
  proof -
    have "case fn N of Inr v \<Rightarrow> True
          | Inl e \<Rightarrow> failFast e \<or> int N \<ge> maxRetries \<or> \<not> isRetryableError e"
      using last by (auto split: sum.splits)
    moreover have "(\<exists>e. fn i = Inl e \<and> \<not> failFast e \<and> isRetryableError e) \<and> int i < maxRetries"
      if "i < N" for i
      using that fails bound by auto
    ultimately show ?thesis
      unfolding retryRpc_def by (intro retry_loop_run) auto
  qed
  show ?thesis
  proof (intro conjI impI)
    assume h: "(\<forall>i<N. \<exists>e. fn i = Inl e \<and> \<not> failFast e \<and> isRetryableError e)
      \<and> fn N = Inr v \<and> int N \<le> maxRetries"
    then have r: "retryRpc fn maxRetries baseDelayMs rnd
               = (Inr v, retry_prefix baseDelayMs rnd 0 N @ [Invoked N])"
      using run by auto
    show "fst (retryRpc fn maxRetries baseDelayMs rnd) = Inr v" by (simp add: r)
    show "invocations (snd (retryRpc fn maxRetries baseDelayMs rnd)) = N + 1"
      by (simp add: r invocations_prefix)
    show "length (sleeps (snd (retryRpc fn maxRetries baseDelayMs rnd))) = N"
      by (simp add: r sleeps_prefix)
  next
    assume h: "(\<forall>i<N. \<exists>e. fn i = Inl e \<and> \<not> failFast e \<and> isRetryableError e)
      \<and> fn N = Inl e' \<and> int N = maxRetries"
    then have r: "retryRpc fn maxRetries baseDelayMs rnd
               = (Inl e', retry_prefix baseDelayMs rnd 0 N @ [Invoked N])"
      using run by auto
    show "fst (retryRpc fn maxRetries baseDelayMs rnd) = Inl e'" by (simp add: r)
    show "invocations (snd (retryRpc fn maxRetries baseDelayMs rnd)) = N + 1"
      by (simp add: r invocations_prefix)
    show "length (sleeps (snd (retryRpc fn maxRetries baseDelayMs rnd))) = N"
      by (simp add: r sleeps_prefix)
  qed
qed

theorem retryRpc_budget_witness:
  "fst (retryRpc (throws_then_returns 2 err_503 7) 3 500 no_jitter) = Inr 7
   \<and> invocations (snd (retryRpc (throws_then_returns 2 err_503 7) 3 500 no_jitter)) = 3
   \<and> length (sleeps (snd (retryRpc (throws_then_returns 2 err_503 7) 3 500 no_jitter))) = 2
   \<and> fst (retryRpc (always_throws err_503) 3 500 no_jitter) = Inl err_503
   \<and> invocations (snd (retryRpc (always_throws err_503) 3 500 no_jitter)) = 4
   \<and> length (sleeps (snd (retryRpc (always_throws err_503) 3 500 no_jitter))) = 3"
proof -
  have a: "\<forall>i<2. \<exists>e. throws_then_returns 2 err_503 7 i = Inl e \<and> \<not> failFast e \<and> isRetryableError e"
    using err_503_class by (simp add: throws_then_returns_def)
  have b: "throws_then_returns 2 err_503 7 2 = Inr 7" by (simp add: throws_then_returns_def)
  have c: "\<forall>i<3. \<exists>e. always_throws err_503 i = Inl e \<and> \<not> failFast e \<and> isRetryableError e"
    using err_503_class by (simp add: always_throws_def)
  have d: "always_throws err_503 3 = Inl err_503" by (simp add: always_throws_def)
  from retryRpc_budget[of 2 "throws_then_returns 2 err_503 7" 7 3 500 no_jitter] a b
  have 1: "fst (retryRpc (throws_then_returns 2 err_503 7) 3 500 no_jitter) = Inr 7
   \<and> invocations (snd (retryRpc (throws_then_returns 2 err_503 7) 3 500 no_jitter)) = 3
   \<and> length (sleeps (snd (retryRpc (throws_then_returns 2 err_503 7) 3 500 no_jitter))) = 2"
    by simp
  from retryRpc_budget[of 3 "always_throws err_503" _ 3 500 no_jitter err_503] c d
  have 2: "fst (retryRpc (always_throws err_503) 3 500 no_jitter) = Inl err_503
   \<and> invocations (snd (retryRpc (always_throws err_503) 3 500 no_jitter)) = 4
   \<and> length (sleeps (snd (retryRpc (always_throws err_503) 3 500 no_jitter))) = 3"
    by simp
  from 1 2 show ?thesis by simp
qed

text \<open>
  C6 as stated fails at \<open>N = maxRetries = 3\<close>: after three retryable failures the fourth
  invocation is still made and its value returned; and an operation that always fails is
  invoked four times, not three, before its error is rethrown.
\<close>

theorem retryRpc_budget_counterexample:
  "retryRpc (throws_then_returns 3 err_503 7) 3 500 no_jitter
     = (Inr 7, [Invoked 0, Slept 550, Invoked 1, Slept 1100, Invoked 2, Slept 2200, Invoked 3])
   \<and> invocations (snd (retryRpc (always_throws err_503) 3 500 no_jitter)) = 4"
  by code_simp


subsection \<open>Rounding to doubles\<close>



















section \<open>Properties of the job handler\<close>

lemma do_rpc_eq:
  "do_rpc env name fn w =
     (fst (retryRpc fn 3 500 (math_random env)),
      w\<lparr>w_trace := w_trace w @ map (Rpc name) (snd (retryRpc fn 3 500 (math_random env)))\<rparr>)"
  by (simp add: do_rpc_def split: prod.splits)

lemma do_query_eq:
  "do_query env q w =
     (case db_error env q of
        Some e \<Rightarrow> (Some e, w\<lparr>w_trace := w_trace w @ [QueryFailed q]\<rparr>)
      | None \<Rightarrow> (None, w\<lparr>w_db := exec_update q (w_db w), w_trace := w_trace w @ [QueryDone q]\<rparr>))"
  by (simp add: do_query_def query_def split: option.splits)

lemmas stage_eqs = ensureBalanceCovers_def getFeeSuggestion_def do_rpc_eq do_query_eq

lemma quiet_rpc [simp]:
  "quiet (Rpc EstimateGas re)" "quiet (Rpc GetFeeData re)" "quiet (Rpc GetBalance re)"
  "quiet (Rpc SendTransaction re)" "quiet (QueryFailed (UPDATE_broadcast h i))"
  "\<not> quiet (Rpc (WaitForTransaction h c t) re)" "\<not> quiet (QueryDone q)"
  "\<not> quiet (QueryFailed (UPDATE_failed rsn i))"
  by (simp_all add: quiet_def)

lemma try_body_cases:
  assumes early: "\<And>e new. \<lbrakk>try_body env job w = (Some e, w\<lparr>w_trace := w_trace w @ new\<rparr>);
                     \<forall>ev\<in>set new. quiet ev\<rbrakk> \<Longrightarrow> thesis"
    and late: "\<And>h pre. \<lbrakk>try_body env job w =
                     wait_phase env job h
                       (w\<lparr>w_db := exec_update (UPDATE_broadcast h (requestId job)) (w_db w),
                          w_trace := w_trace w @ pre @ [QueryDone (UPDATE_broadcast h (requestId job))]\<rparr>);
                     \<forall>ev\<in>set pre. quiet ev\<rbrakk> \<Longrightarrow> thesis"
  shows thesis
proof (cases "amountWei env")
  case (Inl e)
  then have "try_body env job w = (Some e, w\<lparr>w_trace := w_trace w @ []\<rparr>)"
    by (simp add: try_body_def)
  then show thesis by (rule early) simp
next
  case amt: (Inr amount)
  define g where "g = fst (retryRpc (estimateGas env (address job) amount) 3 500 (math_random env))"
  define E1 where "E1 = map (Rpc EstimateGas)
     (snd (retryRpc (estimateGas env (address job) amount) 3 500 (math_random env)))"
  define gasLimit where "gasLimit = (case g of Inr v \<Rightarrow> v | Inl _ \<Rightarrow> FALLBACK_GAS_LIMIT env)"
  define E2 where "E2 = map (Rpc GetFeeData) (snd (retryRpc (getFeeData env) 3 500 (math_random env)))"
  have q1: "\<forall>ev\<in>set E1. quiet ev" and q2: "\<forall>ev\<in>set E2. quiet ev"
    by (auto simp: E1_def E2_def)
  show thesis
  proof (cases "fst (retryRpc (getFeeData env) 3 500 (math_random env))")
    case (Inl e)
    then have "try_body env job w = (Some e, w\<lparr>w_trace := w_trace w @ (E1 @ E2)\<rparr>)"
      by (simp add: try_body_def stage_eqs amt E1_def E2_def)
    then show thesis by (rule early) (use q1 q2 in auto)
  next
    case fee: (Inr fd)
    define fees where "fees = fee_suggestion_of (FEE_BUMP_PCT env) fd"
    define E3 where "E3 = map (Rpc GetBalance)
      (snd (retryRpc (getBalance env (sender env)) 3 500 (math_random env)))"
    have q3: "\<forall>ev\<in>set E3. quiet ev" by (auto simp: E3_def)
    show thesis
    proof (cases "fst (retryRpc (getBalance env (sender env)) 3 500 (math_random env))")
      case (Inl e)
      then have "try_body env job w = (Some e, w\<lparr>w_trace := w_trace w @ (E1 @ E2 @ E3)\<rparr>)"
        by (simp add: try_body_def stage_eqs amt fee E1_def E2_def E3_def)
      then show thesis by (rule early) (use q1 q2 q3 in auto)
    next
      case bal: (Inr b)
      show thesis
      proof (cases "b < amount + s_maxFeePerGas fees * gasLimit")
        case True
        then have "try_body env job w =
            (Some (js_Error ''insufficient funds in faucet wallet for amount+fees''),
             w\<lparr>w_trace := w_trace w @ (E1 @ E2 @ E3)\<rparr>)"
          by (simp add: try_body_def stage_eqs amt fee bal E1_def E2_def E3_def fees_def
                gasLimit_def g_def)
        then show thesis by (rule early) (use q1 q2 q3 in auto)
      next
        case enough: False
        define txr where "txr = \<lparr>tx_to = address job, tx_value = amount, tx_gasLimit = gasLimit,
             tx_maxFeePerGas = s_maxFeePerGas fees\<rparr>"
        define E4 where "E4 = map (Rpc SendTransaction)
          (snd (retryRpc (sendTransaction env txr) 3 500 (math_random env)))"
        have q4: "\<forall>ev\<in>set E4. quiet ev" by (auto simp: E4_def)
        show thesis
        proof (cases "fst (retryRpc (sendTransaction env txr) 3 500 (math_random env))")
          case (Inl e)
          then have "try_body env job w =
              (Some e, w\<lparr>w_trace := w_trace w @ (E1 @ E2 @ E3 @ E4)\<rparr>)"
            using enough
            by (simp add: try_body_def stage_eqs amt fee bal E1_def E2_def E3_def E4_def
                  fees_def gasLimit_def g_def txr_def)
          then show thesis by (rule early) (use q1 q2 q3 q4 in auto)
        next
          case sent: (Inr h)
          show thesis
          proof (cases "db_error env (UPDATE_broadcast h (requestId job))")
            case (Some e)
            then have "try_body env job w =
                (Some e, w\<lparr>w_trace := w_trace w @ (E1 @ E2 @ E3 @ E4
                     @ [QueryFailed (UPDATE_broadcast h (requestId job))])\<rparr>)"
              using enough sent
              by (simp add: try_body_def stage_eqs amt fee bal E1_def E2_def E3_def E4_def
                    fees_def gasLimit_def g_def txr_def)
            then show thesis by (rule early) (use q1 q2 q3 q4 in auto)
          next
            case None
            then have "try_body env job w =
                wait_phase env job h
                  (w\<lparr>w_db := exec_update (UPDATE_broadcast h (requestId job)) (w_db w),
                     w_trace := w_trace w @ (E1 @ E2 @ E3 @ E4)
                        @ [QueryDone (UPDATE_broadcast h (requestId job))]\<rparr>)"
              using enough sent
              by (simp add: try_body_def stage_eqs amt fee bal E1_def E2_def E3_def E4_def
                    fees_def gasLimit_def g_def txr_def)
            then show thesis by (rule late) (use q1 q2 q3 q4 in auto)
          qed
        qed
      qed
    qed
  qed
qed

lemma wait_phase_eq:
  "wait_phase env job h w =
     (let evs = map (Rpc (WaitForTransaction h 1 (TX_WAIT_TIMEOUT_MS env)))
                  (snd (retryRpc (waitForTransaction env h 1 (TX_WAIT_TIMEOUT_MS env)) 3 500
                          (math_random env)));
          q = UPDATE_sent_where_hash (requestId job) h
      in case fst (retryRpc (waitForTransaction env h 1 (TX_WAIT_TIMEOUT_MS env)) 3 500
                     (math_random env)) of
           Inl e \<Rightarrow> (if is_timeout e then None else Some e, w\<lparr>w_trace := w_trace w @ evs\<rparr>)
         | Inr u \<Rightarrow>
             (case db_error env q of
                Some e \<Rightarrow> (if is_timeout e then None else Some e,
                           w\<lparr>w_trace := w_trace w @ evs @ [QueryFailed q]\<rparr>)
              | None \<Rightarrow> (None, w\<lparr>w_db := exec_update q (w_db w),
                                 w_trace := w_trace w @ evs @ [QueryDone q]\<rparr>)))"
  by (simp add: wait_phase_def wait_catch_def stage_eqs Let_def split: sum.splits option.splits)

lemma lock_phase_eq:
  "lock_phase env lk w =
     (fst (acquireLockWithBackoff (others env) lk (w_redis w)),
      w\<lparr>w_redis := snd (acquireLockWithBackoff (others env) lk (w_redis w)),
        w_trace := w_trace w @ [LockAttempts lk (fst (acquireLockWithBackoff (others env) lk (w_redis w)))]\<rparr>)"
  by (simp add: lock_phase_def split: prod.splits)

lemma catch_all_eq:
  "catch_all env job e w =
     (case db_error env (UPDATE_failed (formatReason e) (requestId job)) of
        Some e' \<Rightarrow> (Threw e', w\<lparr>w_trace := w_trace w @ [QueryFailed (UPDATE_failed (formatReason e) (requestId job))]\<rparr>)
      | None \<Rightarrow>
          (if isRetryableError e \<and> \<not> isPermanentError e then Threw e else Returned,
           w\<lparr>w_db := exec_update (UPDATE_failed (formatReason e) (requestId job)) (w_db w),
             w_trace := w_trace w @ [QueryDone (UPDATE_failed (formatReason e) (requestId job))]\<rparr>))"
  by (simp add: catch_all_def do_query_eq Let_def split: option.splits)

text \<open>The handler once the address is valid and the lock is held.\<close>

lemma handler_locked:
  assumes "isAddress env (address job)"
    and "lock_phase env (lockKey (sender env)) w = (True, w1)"
  shows "handler env job w =
     (case try_body env job w1 of
        (None, w2) \<Rightarrow> (Returned, finally_release (lockKey (sender env)) w2)
      | (Some e, w2) \<Rightarrow>
          (fst (catch_all env job e w2),
           finally_release (lockKey (sender env)) (snd (catch_all env job e w2))))"
  using assms by (simp add: handler_def Let_def split: prod.splits option.splits)






lemma quiet_wait_of: "quiet ev \<Longrightarrow> wait_of ev = None"
  by (cases ev rule: wait_of.cases) (auto simp: quiet_def)

lemma is_timeout_retryable:
  assumes "is_timeout e"
  shows "isRetryableError e"
proof -
  from assms obtain m where m: "e_message e = Some m"
    and inc: "str_includes (toLowerCase m) ''timeout''"
    by (cases "e_message e") (auto simp: is_timeout_def toLowerCase_def)
  have "toMsg e = toLowerCase m" by (simp add: toMsg_def nullish_def m)
  moreover have "test_any network_patterns (toLowerCase m)"
    using inc by (simp add: test_any_def network_patterns_def)
  ultimately show ?thesis by (simp add: isRetryableError_def Let_def)
qed

lemma run_events_append: "w_trace w' = w_trace w @ X \<Longrightarrow> run_events w w' = X"
  by (simp add: run_events_def)

text \<open>
  C5, as amended. The confirmation wait is wrapped by \<open>retryRpc\<close> like every network call,
  and an error whose message contains \<open>timeout\<close> is retryable, so a wait that times out is
  repeated. If the run reaches the wait for hash \<open>h\<close> and the retried wait ends with such an
  error, the handler returns normally, no statement writing \<open>failed\<close> is sent, and the
  job's row is left \<open>broadcast\<close> with hash \<open>h\<close>; each wait is made for one confirmation
  with the configured timeout.
\<close>

theorem wait_timeout_returns:
  assumes reach: "Rpc (WaitForTransaction h c t) re \<in> set (run_events w (snd (handler env job w)))"
    and res: "fst (retryRpc (waitForTransaction env h 1 (TX_WAIT_TIMEOUT_MS env)) 3 500
                 (math_random env)) = Inl e"
    and tmo: "is_timeout e"
  shows "fst (handler env job w) = Returned
    \<and> (\<forall>rsn i. QueryDone (UPDATE_failed rsn i) \<notin> set (run_events w (snd (handler env job w)))
              \<and> QueryFailed (UPDATE_failed rsn i) \<notin> set (run_events w (snd (handler env job w))))
    \<and> w_db (snd (handler env job w)) = exec_update (UPDATE_broadcast h (requestId job)) (w_db w)
    \<and> (\<forall>r\<in>set (w_db (snd (handler env job w))).
          row_id r = requestId job \<longrightarrow> status r = Broadcast \<and> tx_hash r = Some h)
    \<and> c = 1 \<and> t = TX_WAIT_TIMEOUT_MS env \<and> isRetryableError e"
proof (cases "isAddress env (address job)")
  case False
  then have "\<forall>ev\<in>set (run_events w (snd (handler env job w))). wait_of ev = None"
    by (auto simp: run_events_def handler_def do_query_eq split: option.splits)
  with reach show ?thesis by force
next
  case valid: True
  let ?lk = "lockKey (sender env)"
  let ?bc = "UPDATE_broadcast h (requestId job)"
  obtain got w1 where lp: "lock_phase env ?lk w = (got, w1)" by (cases "lock_phase env ?lk w")
  then have w1: "w_trace w1 = w_trace w @ [LockAttempts ?lk got]" and db1: "w_db w1 = w_db w"
    by (auto simp: lock_phase_eq)
  show ?thesis
  proof (cases got)
    case False
    with valid lp w1 have "run_events w (snd (handler env job w)) = [LockAttempts ?lk False]"
      by (auto simp: run_events_def handler_def Let_def)
    with reach show ?thesis by simp
  next
    case True
    with lp have lp': "lock_phase env ?lk w = (True, w1)" by simp
    note hl = handler_locked[OF valid lp']
    show ?thesis
    proof (cases rule: try_body_cases[of env job w1])
      case (1 e' new)
      then have "\<forall>ev\<in>set new. wait_of ev = None"
        by (auto simp: quiet_wait_of)
      with 1(1) have "\<forall>ev\<in>set (run_events w (snd (handler env job w))). wait_of ev = None"
        by (auto simp: run_events_def hl w1 catch_all_eq finally_release_def split: option.splits)
      with reach show ?thesis by force
    next
      case (2 hh pre)
      let ?A = "LockAttempts ?lk True # pre"
      have nw: "\<forall>ev\<in>set ?A. wait_of ev = None"
        using 2(2) by (auto simp: quiet_wait_of)
      define ok where "ok = (\<lambda>ev. wait_of ev = None \<or> wait_of ev = Some (hh, 1, TX_WAIT_TIMEOUT_MS env))"
      have ok_simps: "\<And>re. ok (Rpc (WaitForTransaction hh 1 (TX_WAIT_TIMEOUT_MS env)) re)"
        "\<And>q. ok (QueryDone q)" "\<And>q. ok (QueryFailed q)" "\<And>k. ok (LockReleased k)"
        by (simp_all add: ok_def)
      have "\<exists>R. w_trace (snd (handler env job w))
                = w_trace w @ ?A @ QueryDone (UPDATE_broadcast hh (requestId job)) # R
             \<and> (\<forall>ev\<in>set R. ok ev)"
        using True
        by (auto simp: hl 2(1) w1 wait_phase_eq catch_all_eq finally_release_def Let_def ok_simps
              split: sum.splits option.splits)
      then obtain R where R: "run_events w (snd (handler env job w))
                = ?A @ QueryDone (UPDATE_broadcast hh (requestId job)) # R"
        and inR: "\<forall>ev\<in>set R. wait_of ev = None \<or> wait_of ev = Some (hh, 1, TX_WAIT_TIMEOUT_MS env)"
        unfolding ok_def using run_events_append by blast
      have "Rpc (WaitForTransaction h c t) re \<in> set R"
      proof -
        have "Rpc (WaitForTransaction h c t) re \<notin> set ?A" using nw by force
        with reach R show ?thesis by simp
      qed
      with inR have same: "h = hh \<and> c = 1 \<and> t = TX_WAIT_TIMEOUT_MS env" by force
      define evs where "evs = map (Rpc (WaitForTransaction h 1 (TX_WAIT_TIMEOUT_MS env)))
                  (snd (retryRpc (waitForTransaction env h 1 (TX_WAIT_TIMEOUT_MS env)) 3 500
                          (math_random env)))"
      have tb: "try_body env job w1 =
          (None, w1\<lparr>w_db := exec_update ?bc (w_db w1),
                    w_trace := w_trace w1 @ pre @ [QueryDone ?bc] @ evs\<rparr>)"
        using same res tmo by (simp add: 2(1) wait_phase_eq Let_def evs_def)
      have hd: "handler env job w =
          (Returned, w1\<lparr>w_db := exec_update ?bc (w_db w),
                        w_redis := worker_releaseLock ?lk (w_redis w1),
                        w_trace := w_trace w @ ?A @ [QueryDone ?bc] @ evs @ [LockReleased ?lk]\<rparr>)"
        using True by (simp add: hl tb finally_release_def w1 db1)
      have ev: "run_events w (snd (handler env job w)) = ?A @ [QueryDone ?bc] @ evs @ [LockReleased ?lk]"
        by (simp add: hd run_events_def)
      have nofail: "\<forall>rsn i. QueryDone (UPDATE_failed rsn i) \<notin> set (run_events w (snd (handler env job w)))
              \<and> QueryFailed (UPDATE_failed rsn i) \<notin> set (run_events w (snd (handler env job w)))"
        using 2(2) by (auto simp: ev evs_def)
      have rows: "\<forall>r\<in>set (w_db (snd (handler env job w))).
          row_id r = requestId job \<longrightarrow> status r = Broadcast \<and> tx_hash r = Some h"
        by (auto simp: hd)
      have c1: "fst (handler env job w) = Returned" by (simp add: hd)
      have c3: "w_db (snd (handler env job w)) = exec_update ?bc (w_db w)"
        by (simp add: hd)
      from same have c5: "c = 1" and c6: "t = TX_WAIT_TIMEOUT_MS env" by simp_all
      note c7 = is_timeout_retryable[OF tmo]
      show ?thesis by (intro conjI) (fact c1 nofail c3 rows c5 c6 c7)+
    qed
  qed
qed

text \<open>
  C5 as stated fails when the wait times out and its retry fails otherwise: the first wait
  rejects with the timeout error, the next three with HTTP 503; the handler writes
  \<open>failed\<close> and throws.
\<close>

theorem wait_timeout_returns_counterexample:
  "wait_times_out_then_503 ''0x111'' 1 120000 0 = Inl err_wait_timeout
   \<and> is_timeout err_wait_timeout
   \<and> fst (handler (env_with_wait wait_times_out_then_503) job1 world0) = Threw err_503
   \<and> w_db (snd (handler (env_with_wait wait_times_out_then_503) job1 world0))
       = [(a_row 1 10 Failed (Some ''0x111''))\<lparr>reason := Some ''Service Unavailable''\<rparr>]
   \<and> QueryDone (UPDATE_failed ''Service Unavailable'' 1)
       \<in> set (w_trace (snd (handler (env_with_wait wait_times_out_then_503) job1 world0)))"
  by code_simp

theorem wait_timeout_returns_witness:
  "Rpc (WaitForTransaction ''0x111'' 1 120000) (Invoked 3)
     \<in> set (run_events world0 (snd (handler (env_with_wait wait_times_out) job1 world0)))
   \<and> is_timeout err_wait_timeout
   \<and> fst (handler (env_with_wait wait_times_out) job1 world0) = Returned
   \<and> w_db (snd (handler (env_with_wait wait_times_out) job1 world0))
       = [a_row 1 10 Broadcast (Some ''0x111'')]
   \<and> isRetryableError err_wait_timeout"
proof -
  let ?env = "env_with_wait wait_times_out"
  have reach: "Rpc (WaitForTransaction ''0x111'' 1 120000) (Invoked 3)
     \<in> set (run_events world0 (snd (handler ?env job1 world0)))"
    by code_simp
  have res: "fst (retryRpc (waitForTransaction ?env ''0x111'' 1 (TX_WAIT_TIMEOUT_MS ?env)) 3 500
                 (math_random ?env)) = Inl err_wait_timeout"
    by code_simp
  have tmo: "is_timeout err_wait_timeout" by code_simp
  have db: "exec_update (UPDATE_broadcast ''0x111'' (requestId job1)) (w_db world0)
      = [a_row 1 10 Broadcast (Some ''0x111'')]"
    by (simp add: job1_def world0_def a_row_def)
  from wait_timeout_returns[OF reach res tmo] reach tmo db show ?thesis by simp
qed

text \<open>
  C8, as amended. When an error \<open>e\<close> escapes the body of the \<open>try\<close> (the steps from gas
  estimation to the confirmation wait), the handler first sends the statement writing
  \<open>failed\<close> with the reason cut to at most 400 characters, and releases the lock at the
  end. If the statement completes, the job's row is \<open>failed\<close> with that reason and the
  handler rethrows \<open>e\<close> exactly when \<open>e\<close> is retryable and not permanent; otherwise it
  returns. If the database rejects the statement, the table is unchanged and the handler
  throws the rejection, whatever the classification of \<open>e\<close>.
\<close>

theorem catch_all_failed_then_classify:
  assumes "isAddress env (address job)"
    and "lock_phase env (lockKey (sender env)) w = (True, w1)"
    and "try_body env job w1 = (Some e, w2)"
  shows "(db_error env (UPDATE_failed (formatReason e) (requestId job)) = None \<longrightarrow>
        fst (handler env job w) = (if isRetryableError e \<and> \<not> isPermanentError e then Threw e else Returned)
      \<and> w_trace (snd (handler env job w))
          = w_trace w2 @ [QueryDone (UPDATE_failed (formatReason e) (requestId job)),
                          LockReleased (lockKey (sender env))]
      \<and> w_db (snd (handler env job w))
          = exec_update (UPDATE_failed (formatReason e) (requestId job)) (w_db w2)
      \<and> (\<forall>r\<in>set (w_db (snd (handler env job w))).
            row_id r = requestId job \<longrightarrow> status r = Failed \<and> reason r = Some (formatReason e)))
    \<and> (\<forall>e'. db_error env (UPDATE_failed (formatReason e) (requestId job)) = Some e' \<longrightarrow>
        fst (handler env job w) = Threw e'
      \<and> w_trace (snd (handler env job w))
          = w_trace w2 @ [QueryFailed (UPDATE_failed (formatReason e) (requestId job)),
                          LockReleased (lockKey (sender env))]
      \<and> w_db (snd (handler env job w)) = w_db w2)
    \<and> formatReason e = take 400 (message_or_text e)
    \<and> length (formatReason e) \<le> 400"
proof -
  let ?q = "UPDATE_failed (formatReason e) (requestId job)"
  let ?res = "if isRetryableError e \<and> \<not> isPermanentError e then Threw e else Returned"
  let ?lk = "lockKey (sender env)"
  note hl = handler_locked[OF assms(1,2)]
  have completed: "db_error env ?q = None \<longrightarrow>
        fst (handler env job w) = ?res
      \<and> w_trace (snd (handler env job w)) = w_trace w2 @ [QueryDone ?q, LockReleased ?lk]
      \<and> w_db (snd (handler env job w)) = exec_update ?q (w_db w2)
      \<and> (\<forall>r\<in>set (w_db (snd (handler env job w))).
            row_id r = requestId job \<longrightarrow> status r = Failed \<and> reason r = Some (formatReason e))"
  proof
    assume ok: "db_error env ?q = None"
    have ca: "catch_all env job e w2 =
        (?res, w2\<lparr>w_db := exec_update ?q (w_db w2), w_trace := w_trace w2 @ [QueryDone ?q]\<rparr>)"
      using ok by (simp add: catch_all_eq)
    have hd: "handler env job w =
        (?res, w2\<lparr>w_db := exec_update ?q (w_db w2),
                   w_redis := worker_releaseLock ?lk (w_redis w2),
                   w_trace := w_trace w2 @ [QueryDone ?q, LockReleased ?lk]\<rparr>)"
      by (simp add: hl assms(3) ca finally_release_def)
    have c1: "fst (handler env job w) = ?res" by (simp add: hd)
    have c2: "w_trace (snd (handler env job w)) = w_trace w2 @ [QueryDone ?q, LockReleased ?lk]"
      by (simp add: hd)
    have c3: "w_db (snd (handler env job w)) = exec_update ?q (w_db w2)" by (simp add: hd)
    have c4: "\<forall>r\<in>set (w_db (snd (handler env job w))).
            row_id r = requestId job \<longrightarrow> status r = Failed \<and> reason r = Some (formatReason e)"
      unfolding c3 by auto
    show "fst (handler env job w) = ?res
      \<and> w_trace (snd (handler env job w)) = w_trace w2 @ [QueryDone ?q, LockReleased ?lk]
      \<and> w_db (snd (handler env job w)) = exec_update ?q (w_db w2)
      \<and> (\<forall>r\<in>set (w_db (snd (handler env job w))).
            row_id r = requestId job \<longrightarrow> status r = Failed \<and> reason r = Some (formatReason e))"
      by (intro conjI) (fact c1 c2 c3 c4)+
  qed
  have rejected: "\<forall>e'. db_error env ?q = Some e' \<longrightarrow>
        fst (handler env job w) = Threw e'
      \<and> w_trace (snd (handler env job w)) = w_trace w2 @ [QueryFailed ?q, LockReleased ?lk]
      \<and> w_db (snd (handler env job w)) = w_db w2"
  proof (intro allI impI)
    fix e' assume no: "db_error env ?q = Some e'"
    have ca: "catch_all env job e w2 = (Threw e', w2\<lparr>w_trace := w_trace w2 @ [QueryFailed ?q]\<rparr>)"
      using no by (simp add: catch_all_eq)
    have hd: "handler env job w =
        (Threw e', w2\<lparr>w_redis := worker_releaseLock ?lk (w_redis w2),
                      w_trace := w_trace w2 @ [QueryFailed ?q, LockReleased ?lk]\<rparr>)"
      by (simp add: hl assms(3) ca finally_release_def)
    show "fst (handler env job w) = Threw e'
      \<and> w_trace (snd (handler env job w)) = w_trace w2 @ [QueryFailed ?q, LockReleased ?lk]
      \<and> w_db (snd (handler env job w)) = w_db w2"
      by (simp add: hd)
  qed
  have c5: "formatReason e = take 400 (message_or_text e)"
    by (simp add: formatReason_def slice0_def)
  have c6: "length (formatReason e) \<le> 400" by (simp add: c5)
  show ?thesis by (intro conjI) (fact completed rejected c5 c6)+
qed

text \<open>
  C8 as stated fails when the database is down: the balance check throws a permanent
  error, the statement writing \<open>failed\<close> is rejected, and the handler throws instead of
  returning, with the row still \<open>queued\<close>.
\<close>

theorem catch_all_failed_then_classify_counterexample:
  "fst (try_body env_db_down job1 (snd (lock_phase env_db_down ''nonce-lock:0xfaucet'' world0)))
     = Some (js_Error ''insufficient funds in faucet wallet for amount+fees'')
   \<and> isPermanentError (js_Error ''insufficient funds in faucet wallet for amount+fees'')
   \<and> fst (handler env_db_down job1 world0) = Threw err_db_down
   \<and> w_db (snd (handler env_db_down job1 world0)) = [a_row 1 10 Queued None]"
  by code_simp

theorem catch_all_failed_then_classify_witness:
  "fst (handler (env_with_wait wait_times_out_then_503) job1 world0) = Threw err_503
   \<and> w_db (snd (handler (env_with_wait wait_times_out_then_503) job1 world0))
       = exec_update (UPDATE_failed ''Service Unavailable'' 1)
           (w_db (snd (try_body (env_with_wait wait_times_out_then_503) job1
              (snd (lock_phase (env_with_wait wait_times_out_then_503) ''nonce-lock:0xfaucet'' world0)))))
   \<and> fst (handler env_low_balance job1 world0) = Returned
   \<and> w_db (snd (handler env_low_balance job1 world0))
       = exec_update (UPDATE_failed ''insufficient funds in faucet wallet for amount+fees'' 1)
           (w_db (snd (try_body env_low_balance job1
              (snd (lock_phase env_low_balance ''nonce-lock:0xfaucet'' world0)))))
   \<and> fst (handler env_db_down job1 world0) = Threw err_db_down
   \<and> w_db (snd (handler env_db_down job1 world0))
       = w_db (snd (try_body env_db_down job1
              (snd (lock_phase env_db_down ''nonce-lock:0xfaucet'' world0))))"
proof -
  let ?e1 = "env_with_wait wait_times_out_then_503" and ?e2 = env_low_balance
  let ?e3 = env_db_down
  let ?lk = "''nonce-lock:0xfaucet''"
  let ?ins = "js_Error ''insufficient funds in faucet wallet for amount+fees''"
  have lk1: "lockKey (sender ?e1) = ?lk" and lk2: "lockKey (sender ?e2) = ?lk"
    and lk3: "lockKey (sender ?e3) = ?lk" by code_simp+
  have a1: "isAddress ?e1 (address job1)" and a2: "isAddress ?e2 (address job1)"
    and a3: "isAddress ?e3 (address job1)" by code_simp+
  have "fst (lock_phase ?e1 (lockKey (sender ?e1)) world0) = True" by code_simp
  then have l1: "lock_phase ?e1 (lockKey (sender ?e1)) world0
      = (True, snd (lock_phase ?e1 ?lk world0))"
    by (simp add: lk1 prod_eq_iff)
  have "fst (lock_phase ?e2 (lockKey (sender ?e2)) world0) = True" by code_simp
  then have l2: "lock_phase ?e2 (lockKey (sender ?e2)) world0
      = (True, snd (lock_phase ?e2 ?lk world0))"
    by (simp add: lk2 prod_eq_iff)
  have "fst (lock_phase ?e3 (lockKey (sender ?e3)) world0) = True" by code_simp
  then have l3: "lock_phase ?e3 (lockKey (sender ?e3)) world0
      = (True, snd (lock_phase ?e3 ?lk world0))"
    by (simp add: lk3 prod_eq_iff)
  have "fst (try_body ?e1 job1 (snd (lock_phase ?e1 ?lk world0))) = Some err_503" by code_simp
  then have t1: "try_body ?e1 job1 (snd (lock_phase ?e1 ?lk world0))
      = (Some err_503, snd (try_body ?e1 job1 (snd (lock_phase ?e1 ?lk world0))))"
    by (simp add: prod_eq_iff)
  have "fst (try_body ?e2 job1 (snd (lock_phase ?e2 ?lk world0))) = Some ?ins" by code_simp
  then have t2: "try_body ?e2 job1 (snd (lock_phase ?e2 ?lk world0))
      = (Some ?ins, snd (try_body ?e2 job1 (snd (lock_phase ?e2 ?lk world0))))"
    by (simp add: prod_eq_iff)
  have "fst (try_body ?e3 job1 (snd (lock_phase ?e3 ?lk world0))) = Some ?ins" by code_simp
  then have t3: "try_body ?e3 job1 (snd (lock_phase ?e3 ?lk world0))
      = (Some ?ins, snd (try_body ?e3 job1 (snd (lock_phase ?e3 ?lk world0))))"
    by (simp add: prod_eq_iff)
  have d1: "db_error ?e1 (UPDATE_failed (formatReason err_503) (requestId job1)) = None"
    and d2: "db_error ?e2 (UPDATE_failed (formatReason ?ins) (requestId job1)) = None"
    and d3: "db_error ?e3 (UPDATE_failed (formatReason ?ins) (requestId job1)) = Some err_db_down"
    by (simp_all add: env_with_wait_def env_low_balance_def env_db_down_def db_ok_def db_down_def)
  have c1: "isRetryableError err_503 \<and> \<not> isPermanentError err_503" by code_simp
  have c2: "isPermanentError ?ins" by code_simp
  have f1: "formatReason err_503 = ''Service Unavailable''" by code_simp
  have f2: "formatReason ?ins = ''insufficient funds in faucet wallet for amount+fees''" by code_simp
  have i1: "requestId job1 = 1" by (simp add: job1_def)
  note T1 = catch_all_failed_then_classify[OF a1 l1 t1, THEN conjunct1, rule_format, OF d1]
  note T2 = catch_all_failed_then_classify[OF a2 l2 t2, THEN conjunct1, rule_format, OF d2]
  note T3 = catch_all_failed_then_classify[OF a3 l3 t3, THEN conjunct2, THEN conjunct1,
      rule_format, OF d3]
  have r1a: "fst (handler ?e1 job1 world0) = Threw err_503"
    using T1[THEN conjunct1] c1 by (simp only: simp_thms if_True if_False)
  have r1b: "w_db (snd (handler ?e1 job1 world0))
       = exec_update (UPDATE_failed ''Service Unavailable'' 1)
           (w_db (snd (try_body ?e1 job1 (snd (lock_phase ?e1 ?lk world0)))))"
    using T1[THEN conjunct2, THEN conjunct2, THEN conjunct1] by (simp only: f1 i1)
  have r2a: "fst (handler ?e2 job1 world0) = Returned"
    using T2[THEN conjunct1] c2 by (simp only: simp_thms if_True if_False)
  have r2b: "w_db (snd (handler ?e2 job1 world0))
       = exec_update (UPDATE_failed ''insufficient funds in faucet wallet for amount+fees'' 1)
           (w_db (snd (try_body ?e2 job1 (snd (lock_phase ?e2 ?lk world0)))))"
    using T2[THEN conjunct2, THEN conjunct2, THEN conjunct1] by (simp only: f2 i1)
  have r3a: "fst (handler ?e3 job1 world0) = Threw err_db_down"
    by (rule T3[THEN conjunct1])
  have r3b: "w_db (snd (handler ?e3 job1 world0))
       = w_db (snd (try_body ?e3 job1 (snd (lock_phase ?e3 ?lk world0))))"
    by (rule T3[THEN conjunct2, THEN conjunct2])
  show ?thesis by (intro conjI) (fact r1a r1b r2a r2b r3a r3b)+
qed


section \<open>Properties of the reconciler and of the locks\<close>

declare sweep_loop.simps [simp del]






text \<open>
  The reconciler's lock stores the caller's token and is released only by a caller whose
  token is the stored value.
\<close>

lemma reconciler_lock_owner_checked:
  "tryAcquireLock key token store
     = (if store key = None then (Some token, store(key \<mapsto> token)) else (None, store))"
  "reconciler_releaseLock key token store
     = (if store key = Some token then store(key := None) else store)"
  by (simp_all add: tryAcquireLock_def redis_set_nx_def reconciler_releaseLock_def UNLOCK_LUA_def
        redis_del_def split: option.splits)

text \<open>
  C1 fails for the worker's nonce lock: \<open>acquireLock\<close> stores the constant \<open>1\<close>, not a
  token of the caller, and \<open>releaseLock\<close> deletes the key whatever it holds. A worker whose
  lock expired and was taken by a second worker deletes the second worker's lock when it
  finishes, and a third worker then acquires it.
\<close>

theorem worker_lock_released_by_former_holder:
  "(let k = lockKey ''0xfaucet'';
        s1 = snd (acquireLock k Map.empty);
        s2 = ttl_expires k s1;
        s3 = snd (acquireLock k s2);
        s4 = worker_releaseLock k s3
    in fst (acquireLock k Map.empty) \<and> s1 k = Some ''1''
       \<and> fst (acquireLock k s2) \<and> s3 k = Some ''1''
       \<and> s4 k = None \<and> fst (acquireLock k s4))"
  by (simp add: Let_def acquireLock_def redis_set_nx_def ttl_expires_def worker_releaseLock_def
        redis_del_def)

text \<open>The same schedule on the reconciler's lock leaves the new holder's token in place.\<close>

lemma reconciler_lock_kept_for_new_holder:
  "(let s1 = snd (tryAcquireLock LOCK_KEY ''a1b2c3d4e5f60718'' Map.empty);
        s2 = ttl_expires LOCK_KEY s1;
        s3 = snd (tryAcquireLock LOCK_KEY ''0f1e2d3c4b5a6978'' s2);
        s4 = reconciler_releaseLock LOCK_KEY ''a1b2c3d4e5f60718'' s3
    in s4 LOCK_KEY = Some ''0f1e2d3c4b5a6978'')"
  by (simp add: Let_def reconciler_lock_owner_checked ttl_expires_def)

text \<open>
  C4 fails for the reconciler: its updates are keyed by \<open>id\<close> alone. A row the reconciler
  fetched as \<open>broadcast\<close> and the worker has since marked \<open>sent\<close> is overwritten with
  \<open>failed\<close>; and the worker's update, guarded by the hash only, turns a row the reconciler
  marked \<open>failed\<close> into \<open>sent\<close>, since the hash is still there.
\<close>

theorem unguarded_updates_overwrite:
  "(let t0 = [a_row 1 10 Broadcast (Some ''0xbbb'')];
        rows = exec_select (SELECT_broadcast 200) t0;
        t1 = exec_update (UPDATE_sent_where_hash 1 ''0xbbb'') t0;
        t2 = snd (for_rows renv0 0 rows t1)
    in rows = [(1, Some ''0xbbb'')] \<and> map status t1 = [Sent] \<and> map status t2 = [Failed])
   \<and> (let t0 = [a_row 1 10 Broadcast (Some ''0xbbb'')];
           t1 = snd (reconcileBroadcastsOnce renv0 t0);
           t2 = exec_update (UPDATE_sent_where_hash 1 ''0xbbb'') t1
       in map status t1 = [Failed] \<and> map status t2 = [Sent])"
  by code_simp

section \<open>The transaction hash of rows in flight\<close>





















end
